theory Spec2Isabelle
  imports Main
begin

unbundle bit_operations_syntax

section \<open>JavaScript values used by bt-lock.js\<close>

text \<open>
  The numbers the library computes with are integers, with one exception: \<open>parseInt\<close>
  yields \<open>NaN\<close> on text that holds no digit. Integer Numbers are modelled as \<open>int\<close>;
  the type \<open>number\<close> adds \<open>NaN\<close> where \<open>parseInt\<close> results flow. The contents of a
  \<open>Uint8Array\<close> are an \<open>int list\<close> whose elements lie in 0..255.
\<close>

datatype number = NaN | Num int

text \<open>The bitwise operators of JavaScript first convert their operands to a signed
  32-bit integer (ToInt32).\<close>

definition ToInt32 :: "int \<Rightarrow> int" where
  "ToInt32 i = signed_take_bit 31 i"

definition js_and :: "int \<Rightarrow> int \<Rightarrow> int" where
  "js_and a b = ToInt32 a AND ToInt32 b"

definition js_or :: "int \<Rightarrow> int \<Rightarrow> int" where
  "js_or a b = ToInt32 a OR ToInt32 b"

definition js_xor :: "int \<Rightarrow> int \<Rightarrow> int" where
  "js_xor a b = ToInt32 a XOR ToInt32 b"

definition js_shl :: "int \<Rightarrow> nat \<Rightarrow> int" where
  "js_shl a k = ToInt32 (push_bit (k mod 32) (ToInt32 a))"

definition js_shr :: "int \<Rightarrow> nat \<Rightarrow> int" where
  "js_shr a k = drop_bit (k mod 32) (ToInt32 a)"

text \<open>The remainder operator \<open>%\<close> truncates towards zero: the result has the sign of
  the dividend. The library divides by the constants 10, 100 and 256 only.\<close>

definition js_rem :: "int \<Rightarrow> int \<Rightarrow> int" where
  "js_rem a b = sgn a * (\<bar>a\<bar> mod \<bar>b\<bar>)"

text \<open>Storing a Number into a \<open>Uint8Array\<close> keeps it modulo 256.\<close>

definition Uint8Array :: "int list \<Rightarrow> int list" where
  "Uint8Array xs = map (\<lambda>b. b mod 256) xs"

text \<open>Reading index \<open>i\<close> of an array: \<open>None\<close> stands for \<open>undefined\<close>.\<close>

definition idx :: "'a list \<Rightarrow> nat \<Rightarrow> 'a option" where
  "idx xs i = (if i < length xs then Some (xs ! i) else None)"

text \<open>\<open>xs.slice(a, b)\<close> for \<open>0 \<le> a\<close>; both ends are clamped to the length.\<close>

definition slice :: "'a list \<Rightarrow> nat \<Rightarrow> nat \<Rightarrow> 'a list" where
  "slice xs a b = drop a (take b xs)"

text \<open>\<open>xs.reduce((a, b) => a + b, 0)\<close>\<close>

definition reduce_add :: "int list \<Rightarrow> int" where
  "reduce_add xs = foldl (+) 0 xs"

section \<open>Packet codec\<close>

text \<open>
  \<open>createPacket(cmd, data = [])\<close>, lines 364-370: the five header bytes, the low byte
  of the sum of header and data, then the data, stored into a \<open>Uint8Array\<close>.
\<close>

definition createPacket :: "int \<Rightarrow> int list \<Rightarrow> int list" where
  "createPacket cmd data =
     (let STX = 0xF5;
          ETX = 0x5F;
          packet = [STX, cmd, 0x00, int (length data), ETX];
          sum = reduce_add packet + reduce_add data
      in Uint8Array (packet @ [js_and sum 0xFF] @ data))"

text \<open>\<open>encryptData(plainData, key)\<close>, lines 373-375.\<close>

definition encryptData :: "int list \<Rightarrow> int \<Rightarrow> int list" where
  "encryptData plainData key = map (\<lambda>b. js_rem (js_xor b key) 256) plainData"

section \<open>BCD codec\<close>

text \<open>\<open>decToBcd(dec)\<close>, lines 422-424, and \<open>bcdToDec(byte)\<close>, lines 448-452.
  \<open>Math.floor(dec / 10)\<close> is the floor division of integers.\<close>

definition decToBcd :: "int \<Rightarrow> int" where
  "decToBcd dec = js_and (js_or (js_shl (dec div 10) 4) (js_rem dec 10)) 0xFF"

definition bcdToDec :: "int \<Rightarrow> int" where
  "bcdToDec byte =
     (let high = js_and (js_shr byte 4) 0x0F;
          low = js_and byte 0x0F
      in high * 10 + low)"

section \<open>Strings\<close>

text \<open>
  Strings are lists of 8-bit characters: the model covers text in the Latin-1 range,
  which is all the library produces from bytes and all a numeric phone number or user id
  contains.
\<close>

text \<open>\<open>s.padStart(n, c)\<close> with a one-character filler, and \<open>s.substr(i, n)\<close> for
  \<open>0 \<le> i\<close>.\<close>

definition padStart :: "string \<Rightarrow> nat \<Rightarrow> char \<Rightarrow> string" where
  "padStart s n c = replicate (n - length s) c @ s"

definition substr :: "string \<Rightarrow> nat \<Rightarrow> nat \<Rightarrow> string" where
  "substr s i n = take n (drop i s)"

text \<open>\<open>xs.join(sep)\<close>\<close>

fun join :: "string \<Rightarrow> string list \<Rightarrow> string" where
  "join sep [] = []"
| "join sep [x] = x"
| "join sep (x # y # ys) = x @ sep @ join sep (y # ys)"

text \<open>\<open>String.fromCharCode(...bytes)\<close> on byte values.\<close>

definition fromCharCode :: "int list \<Rightarrow> string" where
  "fromCharCode bytes = map char_of bytes"

text \<open>\<open>Array.from(s, c => c.charCodeAt(0))\<close>\<close>

definition charCodes :: "string \<Rightarrow> int list" where
  "charCodes s = map of_char s"

subsection \<open>Number.prototype.toString\<close>

definition digitChar :: "nat \<Rightarrow> char" where
  "digitChar d = ''0123456789abcdef'' ! (d mod 16)"

function toDigits :: "nat \<Rightarrow> nat \<Rightarrow> string" where
  "toDigits r n =
     (if r < 2 \<or> n < r then [digitChar n] else toDigits r (n div r) @ [digitChar (n mod r)])"
  by pat_completeness auto
termination
  by (relation "measure snd") auto

declare toDigits.simps [simp del]

definition intToString :: "nat \<Rightarrow> int \<Rightarrow> string" where
  "intToString r i = (if i < 0 then CHR ''-'' # toDigits r (nat (- i)) else toDigits r (nat i))"

text \<open>\<open>x.toString(16)\<close> and \<open>x.toString()\<close> on a Number.\<close>

definition toString16 :: "number \<Rightarrow> string" where
  "toString16 x = (case x of NaN \<Rightarrow> ''NaN'' | Num i \<Rightarrow> intToString 16 i)"

definition toString10 :: "int \<Rightarrow> string" where
  "toString10 i = intToString 10 i"

subsection \<open>parseInt(text, 16)\<close>

text \<open>
  \<open>parseInt\<close> skips leading white space, reads an optional sign and an optional
  \<open>0x\<close> prefix, and converts the longest run of hexadecimal digits that follows; with
  no digit there the result is \<open>NaN\<close>.
\<close>

definition isWhiteSpace :: "char \<Rightarrow> bool" where
  "isWhiteSpace c = ((of_char c :: nat) \<in> {9, 10, 11, 12, 13, 32, 160})"

definition isHexDigit :: "char \<Rightarrow> bool" where
  "isHexDigit c =
     (let n = (of_char c :: nat)
      in (48 \<le> n \<and> n \<le> 57) \<or> (97 \<le> n \<and> n \<le> 102) \<or> (65 \<le> n \<and> n \<le> 70))"

definition hexDigitVal :: "char \<Rightarrow> int" where
  "hexDigitVal c =
     (let n = (of_char c :: int)
      in if n \<le> 57 then n - 48 else if 97 \<le> n then n - 87 else n - 55)"

definition parseInt16 :: "string \<Rightarrow> number" where
  "parseInt16 text =
     (let s = dropWhile isWhiteSpace text;
          negative = (take 1 s = ''-'');
          s1 = (if take 1 s = ''-'' \<or> take 1 s = ''+'' then drop 1 s else s);
          s2 = (if take 2 s1 = ''0x'' \<or> take 2 s1 = ''0X'' then drop 2 s1 else s1);
          digits = takeWhile isHexDigit s2;
          magnitude = foldl (\<lambda>a c. 16 * a + hexDigitVal c) 0 digits
      in if digits = [] then NaN
         else Num (if negative then - magnitude else magnitude))"

section \<open>Phone numbers and user ids\<close>

text \<open>\<open>parsePhoneNumber(phone)\<close>, lines 394-405. The argument of the model is the text
  \<open>String(phone)\<close>.\<close>

definition parsePhoneNumber :: "string \<Rightarrow> number list" where
  "parsePhoneNumber phone =
     (let padded = padStart phone 12 CHR ''0''
      in [parseInt16 (substr padded 0 2),
          parseInt16 (substr padded 2 2),
          parseInt16 (substr padded 4 2),
          parseInt16 (substr padded 6 2),
          parseInt16 (substr padded 8 2),
          parseInt16 (substr padded 10 2)])"

text \<open>\<open>parseUserId(bytes)\<close>, lines 466-471; \<open>replace(/^0+/, '')\<close> drops the leading
  zeros.\<close>

definition parseUserId :: "number list \<Rightarrow> string" where
  "parseUserId bytes =
     dropWhile (\<lambda>c. c = CHR ''0'')
       (join [] (map (\<lambda>b. padStart (toString16 b) 2 CHR ''0'') bytes))"

text \<open>\<open>parsePassword(bytes)\<close>, lines 474-477; \<open>replace(/\0/g, '')\<close> removes every NUL.\<close>

definition parsePassword :: "int list \<Rightarrow> string" where
  "parsePassword bytes = filter (\<lambda>c. c \<noteq> char_of (0::nat)) (fromCharCode bytes)"

section \<open>User records\<close>

text \<open>\<open>getType(byte)\<close>, lines 456-463.\<close>

definition getType :: "int \<Rightarrow> string" where
  "getType byte =
     (if byte = 0x02 then ''Periodic user''
      else if byte = 0x03 then ''Once code/user''
      else if byte = 0x82 then ''Expired periodic code''
      else if byte = 0x83 then ''Expired once code''
      else ''Onbekend (0x'' @ toString16 (Num byte) @ '')'')"

text \<open>
  \<open>parseDateTime(bytes)\<close>, lines 427-446. Each \<open>throw\<close> sits inside the function's own
  \<open>try\<close>, whose \<open>catch\<close> returns the text that shows the raw bytes. A missing byte
  reads as \<open>undefined\<close>, which the bit operations of \<open>bcdToDec\<close> take as 0.
\<close>

definition bcdAt :: "int list \<Rightarrow> nat \<Rightarrow> int" where
  "bcdAt bytes i = (case idx bytes i of None \<Rightarrow> 0 | Some b \<Rightarrow> bcdToDec b)"

definition pad2 :: "int \<Rightarrow> string" where
  "pad2 n = padStart (toString10 n) 2 CHR ''0''"

definition parseDateTime :: "int list \<Rightarrow> string" where
  "parseDateTime bytes =
     (let year = bcdAt bytes 0 + 2000;
          month = bcdAt bytes 1;
          day = bcdAt bytes 2;
          hour = bcdAt bytes 3;
          minute = bcdAt bytes 4
      in if month < 1 \<or> month > 12 \<or> day < 1 \<or> day > 31 \<or> hour > 23 \<or> minute > 59
         then ''Invalid date/time ('' @ join '':'' (map (\<lambda>b. toString16 (Num b)) bytes) @ '')''
         else toString10 year @ ''-'' @ pad2 month @ ''-'' @ pad2 day @ '' '' @ pad2 hour
              @ '':'' @ pad2 minute)"

record user =
  valid :: bool
  type :: string
  userId :: string
  password :: string
  validFrom :: string
  validTo :: string
  raw :: "int list"

text \<open>The body of the loop of \<open>parseUserData\<close>, lines 487-499. The loop reaches it
  with a chunk of 24 bytes only, so \<open>chunk[0]\<close> is a byte.\<close>

definition parseChunk :: "int list \<Rightarrow> user" where
  "parseChunk chunk =
     (let checksum = idx chunk 23;
          calculated = js_and (reduce_add (slice chunk 0 23)) 0xFF
      in \<lparr> valid = (checksum = Some calculated),
           type = getType (chunk ! 0),
           userId = parseUserId (map Num (slice chunk 1 7)),
           password = parsePassword (slice chunk 7 13),
           validFrom = parseDateTime (slice chunk 13 18),
           validTo = parseDateTime (slice chunk 18 23),
           raw = chunk \<rparr>)"

text \<open>\<open>parseUserData(dataBuffer)\<close>, lines 479-504: the loop over \<open>i = 0, 24, 48, ...\<close>,
  which stops at the first chunk shorter than 24 bytes.\<close>

function parseUserData_loop :: "int list \<Rightarrow> nat \<Rightarrow> user list \<Rightarrow> user list" where
  "parseUserData_loop dataBuffer i users =
     (if i < length dataBuffer
      then (let chunk = slice dataBuffer i (i + 24)
            in if length chunk < 24 then users
               else parseUserData_loop dataBuffer (i + 24) (users @ [parseChunk chunk]))
      else users)"
  by pat_completeness auto
termination
  by (relation "measure (\<lambda>(dataBuffer, i, users). length dataBuffer - i)") auto

declare parseUserData_loop.simps [simp del]

definition parseUserData :: "int list \<Rightarrow> user list" where
  "parseUserData dataBuffer = parseUserData_loop dataBuffer 0 []"

section \<open>Session state\<close>

text \<open>
  The module keeps its session in top-level variables (lines 26-36). The record below
  holds them under their own names, and next to them what the module does to its
  surroundings: the packets written to the characteristic, the promises it has settled,
  the timers it has started, and the user lists it has printed.

  \<^item> \<open>link\<close> and \<open>attempts\<close> describe the transport: the \<open>n\<close>-th call of
    \<open>writeCharacteristic.writeValue\<close> succeeds iff \<open>link n\<close>.
  \<^item> A promise is named by a number; \<open>promises\<close> maps a settled promise to its outcome.
    Settling a promise a second time has no effect.
  \<^item> \<open>pendingBatteryResolve\<close> holds a closure over one promise and its timer; the model
    stores the number of that promise, which also names the timer.
  \<^item> \<open>btDebug\<close> is \<open>true\<close> and never assigned, so every debug branch runs.
  \<^item> The module declares \<open>pendingCreateUserPassword\<close> (line 35), and no other name for
    that map. Lines 161, 165, 327 and 330 read \<open>pendingCreateUserPasswords\<close>, which no
    declaration binds: evaluating that name throws a \<open>ReferenceError\<close>.

  Each exported operation is modelled as one uninterrupted step; an exception or a
  rejected promise is the \<open>Inl\<close> of the result.
\<close>

datatype error =
    Error string
  | TypeError string
  | ReferenceError string
  | WriteError

text \<open>Of the device the module reads \<open>gatt.connected\<close> only.\<close>

datatype device = Device (gatt_connected: bool)

record config =
  PAIRING_PASSWORD :: "string option"
  ADMIN_PHONE :: "string option"
  ADMIN_PASSWORD :: "string option"

text \<open>The object a battery request resolves to. Its field \<open>raw\<close> is named
  \<open>rawResponse\<close> here, and its field \<open>percentage\<close>, a floating-point value, is left
  out.\<close>

record battery =
  voltage :: int
  voltageString :: string
  rawResponse :: "int list"

datatype outcome = Resolved battery | Rejected error

record state =
  CONFIG :: config
  bluetoothDevice :: "device option"
  writeCharacteristic :: "unit option"
  notifyCharacteristic :: "unit option"
  randomCode :: "int option"
  userDataBuffer :: "int list"
  isAuthenticated :: bool
  pendingBatteryResolve :: "nat option"
  pendingCreateUserPassword :: "(string \<times> nat) list"
  latestPasswords :: "string \<rightharpoonup> string"
  link :: "nat \<Rightarrow> bool"
  attempts :: nat
  written :: "int list list"
  promises :: "nat \<rightharpoonup> outcome"
  nextPromise :: nat
  timers :: "nat list"
  printedUsers :: "user list list"

definition settle :: "nat \<Rightarrow> outcome \<Rightarrow> state \<Rightarrow> state" where
  "settle p out st =
     (if promises st p = None then st\<lparr>promises := (promises st)(p \<mapsto> out)\<rparr> else st)"

section \<open>Writing to the lock\<close>

text \<open>\<open>writeCharacteristic.writeValue(packet)\<close>: a \<open>TypeError\<close> when the variable
  holds no characteristic, otherwise whatever the transport does with this attempt.\<close>

definition writeValue :: "state \<Rightarrow> int list \<Rightarrow> (error + unit) \<times> state" where
  "writeValue st packet =
     (case writeCharacteristic st of
        None \<Rightarrow> (Inl (TypeError ''writeCharacteristic has no value''), st)
      | Some c \<Rightarrow>
          if link st (attempts st)
          then (Inr (), st\<lparr>attempts := attempts st + 1, written := written st @ [packet]\<rparr>)
          else (Inl WriteError, st\<lparr>attempts := attempts st + 1\<rparr>))"

text \<open>A write that is not awaited (lines 98 and 212): only the synchronous
  \<open>TypeError\<close> reaches the caller; a later rejection is dropped.\<close>

definition writeValue_noawait :: "state \<Rightarrow> int list \<Rightarrow> (error + unit) \<times> state" where
  "writeValue_noawait st packet =
     (case writeCharacteristic st of
        None \<Rightarrow> writeValue st packet
      | Some c \<Rightarrow> (Inr (), snd (writeValue st packet)))"

text \<open>\<open>writeWithRetry(packet, retries = 3)\<close>, lines 378-391: the loop over \<open>i\<close>.\<close>

function writeWithRetry_loop ::
  "state \<Rightarrow> int list \<Rightarrow> nat \<Rightarrow> nat \<Rightarrow> (error + unit) \<times> state" where
  "writeWithRetry_loop st packet retries i =
     (if i < retries
      then (case writeValue st packet of
              (Inr u, st') \<Rightarrow> (Inr (), st')
            | (Inl e, st') \<Rightarrow>
                if i = retries - 1 then (Inl e, st')
                else writeWithRetry_loop st' packet retries (i + 1))
      else (Inr (), st))"
  by pat_completeness auto
termination
  by (relation "measure (\<lambda>(st, packet, retries, i). retries - i)") auto

declare writeWithRetry_loop.simps [simp del]

definition writeWithRetry :: "state \<Rightarrow> int list \<Rightarrow> (error + unit) \<times> state" where
  "writeWithRetry st packet = writeWithRetry_loop st packet 3 0"

section \<open>Notifications\<close>

text \<open>
  \<open>authenticateAdmin()\<close>, lines 195-213. \<open>String(undefined)\<close> is the text
  \<open>undefined\<close>; \<open>Array.from(undefined, ...)\<close> throws a \<open>TypeError\<close>. A \<open>NaN\<close> among the
  phone bytes enters \<open>b ^ key\<close> as 0, which is what ToInt32 makes of it.
\<close>

definition nanToZero :: "number \<Rightarrow> int" where
  "nanToZero x = (case x of NaN \<Rightarrow> 0 | Num i \<Rightarrow> i)"

definition authenticateAdmin :: "state \<Rightarrow> (error + unit) \<times> state" where
  "authenticateAdmin st =
     (let phone = (case ADMIN_PHONE (CONFIG st) of None \<Rightarrow> ''undefined'' | Some t \<Rightarrow> t);
          key = (case randomCode st of None \<Rightarrow> 0 | Some k \<Rightarrow> k)
      in case ADMIN_PASSWORD (CONFIG st) of
           None \<Rightarrow> (Inl (TypeError ''undefined is not iterable''), st)
         | Some pw \<Rightarrow>
             (let adminData = [0x01] @ map nanToZero (parsePhoneNumber phone) @ charCodes pw;
                  encryptedData = encryptData adminData key;
                  authPacket = createPacket 0x21 encryptedData
              in writeValue_noawait st authPacket))"

text \<open>A byte of the response used as an operand of a bit operation: \<open>undefined\<close>
  counts as 0.\<close>

definition byteOr0 :: "int list \<Rightarrow> nat \<Rightarrow> int" where
  "byteOr0 response i = (case idx response i of None \<Rightarrow> 0 | Some b \<Rightarrow> b)"

text \<open>\<open>response.slice(6, 6 + dataLength)\<close>; with \<open>dataLength\<close> undefined the end is
  \<open>NaN\<close>, which \<open>slice\<close> reads as 0.\<close>

definition payloadOf :: "int list \<Rightarrow> int option \<Rightarrow> int list" where
  "payloadOf response dataLength =
     (case dataLength of None \<Rightarrow> [] | Some n \<Rightarrow> slice response 6 (6 + nat n))"

text \<open>
  \<open>handleNotifications(event)\<close>, lines 81-193; \<open>response\<close> is the content of the
  \<open>Uint8Array\<close> built from the event. The cases of the \<open>switch\<close> follow in the order of
  the source. Console output is not part of the state, except the user list printed at
  line 149; so the cases \<open>0x6B\<close> and \<open>0x72\<close>, which only print, leave the state as it
  is. Two debug lines call \<open>toString\<close> on the status byte and throw a
  \<open>TypeError\<close> when the response is too short to have one (lines 114 and 181).
\<close>

definition handleNotifications :: "state \<Rightarrow> int list \<Rightarrow> (error + unit) \<times> state" where
  "handleNotifications st response =
     (let cmd = idx response 1;
          status = idx response 2;
          dataLength = idx response 3
      in
      if cmd = Some 0x0F then
        (if status = Some 0x10 then writeValue_noawait st (createPacket 0x20 [])
         else (Inr (), st))
      else if cmd = Some 0x20 then
        (if status = Some 0x10
         then authenticateAdmin (st\<lparr>randomCode := idx response (length response - 1)\<rparr>)
         else (Inr (), st))
      else if cmd = Some 0x21 then
        (let st' = st\<lparr>isAuthenticated := (status = Some 0x10)\<rparr>
         in if status = None then (Inl (TypeError ''status is undefined''), st')
            else (Inr (), st'))
      else if cmd = Some 0x60 then
        (if status = Some 0x10 then
           (let voltage = js_or (js_shl (byteOr0 response 8) 8) (byteOr0 response 9)
            in case pendingBatteryResolve st of
                 None \<Rightarrow> (Inr (), st)
               | Some p \<Rightarrow>
                   (Inr (),
                    (settle p
                       (Resolved \<lparr> voltage = voltage,
                                   voltageString = toString10 voltage @ ''mV'',
                                   rawResponse = response \<rparr>)
                       (st\<lparr>timers := removeAll p (timers st)\<rparr>))
                    \<lparr>pendingBatteryResolve := None\<rparr>))
         else (Inr (), st))
      else if cmd = Some 0x6C then
        (if status = Some 0x24 then
           (let payload = payloadOf response dataLength
            in (Inr (), st\<lparr>userDataBuffer := userDataBuffer st @ payload\<rparr>))
         else if status = Some 0x10 then
           (let payload = payloadOf response dataLength;
                buffer = userDataBuffer st @ payload;
                users = parseUserData buffer
            in (Inr (), st\<lparr>printedUsers := printedUsers st @ [users], userDataBuffer := []\<rparr>))
         else (Inr (), st))
      else if cmd = Some 0x68 then
        (if status = Some 0x10 then
           (let password = fromCharCode (slice response 6 12)
            in (Inl (ReferenceError ''pendingCreateUserPasswords is not defined''), st))
         else (Inr (), st))
      else if cmd = Some 0x6B then
        (if status = None then (Inl (TypeError ''status is undefined''), st)
         else (Inr (), st))
      else if cmd = Some 0x72 then (Inr (), st)
      else (Inr (), st))"

section \<open>Operations\<close>

text \<open>
  \<open>getBatteryLevel()\<close>, lines 234-261. The call creates a promise and returns it; the
  model returns its number. The timer of line 244 is started under the same number and
  runs \<open>batteryTimeout\<close> when its five seconds are over, unless \<open>clearTimeout\<close> removed
  it before. The \<open>catch\<close> of line 256 does not clear the timer.
\<close>

definition getBatteryLevel :: "state \<Rightarrow> nat \<times> state" where
  "getBatteryLevel st =
     (let p = nextPromise st;
          st0 = st\<lparr>nextPromise := p + 1\<rparr>
      in if pendingBatteryResolve st0 \<noteq> None
         then (p, settle p (Rejected (Error ''There is already a battery request running.'')) st0)
         else (let st1 = st0\<lparr>timers := timers st0 @ [p], pendingBatteryResolve := Some p\<rparr>
               in case writeWithRetry st1 (createPacket 0x60 []) of
                    (Inr u, st2) \<Rightarrow> (p, st2)
                  | (Inl e, st2) \<Rightarrow>
                      (p, settle p (Rejected e) (st2\<lparr>pendingBatteryResolve := None\<rparr>))))"

text \<open>The callback of the timer of promise \<open>p\<close>, lines 244-247.\<close>

definition batteryTimeout :: "nat \<Rightarrow> state \<Rightarrow> state" where
  "batteryTimeout p st =
     (if p \<in> set (timers st)
      then settle p (Rejected (Error ''Timeout after 5 seconds''))
             (st\<lparr>timers := removeAll p (timers st), pendingBatteryResolve := None\<rparr>)
      else st)"

text \<open>\<open>deleteAllUsers()\<close>, lines 266-272.\<close>

definition deleteAllUsers :: "state \<Rightarrow> (error + unit) \<times> state" where
  "deleteAllUsers st =
     (if \<not> isAuthenticated st then (Inl (Error ''Please authenticate first.''), st)
      else writeWithRetry st (createPacket 0x6B []))"

text \<open>
  \<open>systemExit()\<close>, lines 279-302. The \<open>catch\<close> prints the error and throws it again, so
  a failed write leaves the function before step 3. The delay of step 2 changes nothing
  in the state.
\<close>

definition systemExit :: "state \<Rightarrow> (error + unit) \<times> state" where
  "systemExit st =
     (case writeWithRetry st (createPacket 0x6F []) of
        (Inl e, st1) \<Rightarrow> (Inl e, st1)
      | (Inr u, st1) \<Rightarrow>
          (let st2 = (case bluetoothDevice st1 of
                        Some (Device True) \<Rightarrow> st1\<lparr>bluetoothDevice := Some (Device False)\<rparr>
                      | _ \<Rightarrow> st1)
           in (Inr (), st2\<lparr>bluetoothDevice := None,
                            writeCharacteristic := None,
                            isAuthenticated := False\<rparr>)))"

text \<open>\<open>dateToBcd(date)\<close>, lines 411-419; a date is given by what its five getters
  return.\<close>

record date =
  getFullYear :: int
  getMonth :: int
  getDate :: int
  getHours :: int
  getMinutes :: int

definition dateToBcd :: "date \<Rightarrow> int list" where
  "dateToBcd d =
     [decToBcd (js_rem (getFullYear d) 100),
      decToBcd (getMonth d + 1),
      decToBcd (getDate d),
      decToBcd (getHours d),
      decToBcd (getMinutes d)]"

text \<open>
  \<open>createUser(userId, startDate, endDate, options)\<close>, lines 309-336; the argument
  \<open>uid\<close> is the text \<open>String(userId)\<close> and \<open>options.once\<close> as a truth value. Line 327 evaluates
  \<open>pendingCreateUserPasswords\<close>, which is not declared, so the function leaves there with
  a \<open>ReferenceError\<close>: lines 329-335, the write included, are never reached.
\<close>

definition createUser :: "state \<Rightarrow> string \<Rightarrow> date \<Rightarrow> date \<Rightarrow> bool \<Rightarrow> (error + string) \<times> state" where
  "createUser st uid startDate endDate once =
     (if \<not> isAuthenticated st then (Inl (Error ''Please authenticate first.''), st)
      else (let type = (if once then 0x03 else 0x02);
                startBCD = dateToBcd startDate;
                endBCD = dateToBcd endDate;
                userData = [Num type] @ parsePhoneNumber uid @ map Num startBCD @ map Num endBCD
            in (Inl (ReferenceError ''pendingCreateUserPasswords is not defined''), st)))"

section \<open>Runs of the session\<close>

text \<open>
  The values the module's variables have after loading (lines 26-36), for a transport
  that behaves as \<open>l\<close> says, and the state a successful \<open>connectToDevice()\<close> leaves
  (lines 44-60): the device is connected and both characteristics are set.
\<close>

definition initialState :: "(nat \<Rightarrow> bool) \<Rightarrow> state" where
  "initialState l =
     \<lparr> CONFIG = \<lparr> PAIRING_PASSWORD = None, ADMIN_PHONE = None, ADMIN_PASSWORD = None \<rparr>,
       bluetoothDevice = None,
       writeCharacteristic = None,
       notifyCharacteristic = None,
       randomCode = None,
       userDataBuffer = [],
       isAuthenticated = False,
       pendingBatteryResolve = None,
       pendingCreateUserPassword = [],
       latestPasswords = Map.empty,
       link = l,
       attempts = 0,
       written = [],
       promises = Map.empty,
       nextPromise = 0,
       timers = [],
       printedUsers = [] \<rparr>"

definition connected :: "state \<Rightarrow> state" where
  "connected st =
     st\<lparr>bluetoothDevice := Some (Device True),
        notifyCharacteristic := Some (),
        writeCharacteristic := Some ()\<rparr>"

text \<open>Notifications are handled one after the other, in the order of their arrival; an
  exception thrown while handling one of them ends the handling of that one only.\<close>

definition handleAll :: "state \<Rightarrow> int list list \<Rightarrow> state" where
  "handleAll st responses = foldl (\<lambda>s r. snd (handleNotifications s r)) st responses"

section \<open>Properties of the packet codec\<close>

lemma ToInt32_small: "- (2^31) \<le> i \<Longrightarrow> i < 2^31 \<Longrightarrow> ToInt32 i = i"
  unfolding ToInt32_def by (simp add: signed_take_bit_int_eq_self)

lemma js_and_FF: "js_and s 0xFF = s mod 256"
proof -
  have "ToInt32 s AND 255 = take_bit 8 (signed_take_bit 31 s)"
    unfolding ToInt32_def by (simp add: take_bit_eq_mask mask_eq_exp_minus_1)
  also have "\<dots> = take_bit 8 s" by (simp add: take_bit_signed_take_bit)
  also have "\<dots> = s mod 256" by (simp add: take_bit_eq_mod)
  finally show ?thesis unfolding js_and_def by (simp add: ToInt32_small)
qed

lemma foldl_add: "foldl (+) (a::int) xs = a + sum_list xs"
  by (induction xs arbitrary: a) auto

lemma reduce_add_sum: "reduce_add xs = sum_list xs"
  by (simp add: reduce_add_def foldl_add)

lemma bytes_mod: "\<forall>b\<in>set data. 0 \<le> b \<and> b < 256 \<Longrightarrow> map (\<lambda>b. b mod 256) data = (data::int list)"
  by (induction data) auto

lemma mod_mid: "((a::int) + l mod m + b) mod m = (a + l + b) mod m"
proof -
  have "(a + l mod m + b) mod m = (l mod m + (a + b)) mod m" by (simp add: algebra_simps)
  also have "\<dots> = (l + (a + b)) mod m" by (rule mod_add_left_eq)
  finally show ?thesis by (simp add: algebra_simps)
qed

lemma createPacket_bytes:
  assumes "0 \<le> cmd" "cmd < 256" "\<forall>b\<in>set data. 0 \<le> b \<and> b < 256"
  shows "createPacket cmd data =
     [0xF5, cmd, 0, int (length data) mod 256, 0x5F,
      (0xF5 + cmd + 0 + int (length data) + 0x5F + sum_list data) mod 256] @ data"
  using assms
  by (simp add: createPacket_def Let_def Uint8Array_def js_and_FF reduce_add_sum bytes_mod)

text \<open>
  Claim C1, as the code has it. For a command byte and data bytes, the frame built by
  \<open>createPacket\<close> reads back as follows: byte 1 is the command, byte 2 is the status
  \<open>0x00\<close>, the bytes from index 6 on are the data, and byte 5 is the low byte of the sum
  of the five header bytes and all data bytes. Byte 3 holds the length of the data modulo
  256, because the frame has one byte for it: it is the length itself for up to 255 data
  bytes, and then the payload slice that \<open>handleNotifications\<close> takes,
  \<open>slice(6, 6 + dataLength)\<close>, is the data too.
\<close>

theorem createPacket_decode:
  assumes "0 \<le> cmd" and "cmd < 256" and "\<forall>b\<in>set data. 0 \<le> b \<and> b < 256"
  shows "idx (createPacket cmd data) 1 = Some cmd
       \<and> idx (createPacket cmd data) 2 = Some 0x00
       \<and> idx (createPacket cmd data) 3 = Some (int (length data) mod 256)
       \<and> (length data < 256 \<longrightarrow> idx (createPacket cmd data) 3 = Some (int (length data)))
       \<and> drop 6 (createPacket cmd data) = data
       \<and> (length data < 256 \<longrightarrow>
            payloadOf (createPacket cmd data) (idx (createPacket cmd data) 3) = data)
       \<and> idx (createPacket cmd data) 5 =
            Some ((sum_list (take 5 (createPacket cmd data)) + sum_list data) mod 256)"
proof -
  note f = createPacket_bytes[OF assms]
  have a: "idx (createPacket cmd data) 1 = Some cmd" "idx (createPacket cmd data) 2 = Some 0x00"
      "idx (createPacket cmd data) 3 = Some (int (length data) mod 256)"
      "drop 6 (createPacket cmd data) = data"
    unfolding f by (simp_all add: idx_def)
  have b: "length data < 256 \<Longrightarrow> int (length data) mod 256 = int (length data)" by simp
  have c: "length data < 256 \<Longrightarrow>
      payloadOf (createPacket cmd data) (idx (createPacket cmd data) 3) = data"
    unfolding a(3) unfolding f by (simp add: payloadOf_def slice_def b)
  have "(0xF5 + cmd + 0 + int (length data) + 0x5F + sum_list data) mod 256
      = (0xF5 + cmd + 0 + int (length data) mod 256 + 0x5F + sum_list data) mod 256"
    using mod_mid[of "0xF5 + cmd + 0" "int (length data)" 256 "0x5F + sum_list data"]
    by (simp add: add.assoc)
  then have d: "idx (createPacket cmd data) 5 =
            Some ((sum_list (take 5 (createPacket cmd data)) + sum_list data) mod 256)"
    unfolding f by (simp add: idx_def)
  show ?thesis using a b c d by simp
qed

theorem createPacket_decode_witness:
  "idx (createPacket 0x68 [1, 2, 3]) 1 = Some 0x68
   \<and> idx (createPacket 0x68 [1, 2, 3]) 3 = Some 3
   \<and> drop 6 (createPacket 0x68 [1, 2, 3]) = [1, 2, 3]
   \<and> idx (createPacket 0x68 [1, 2, 3]) 5 = Some 0xC5"
  using createPacket_decode [of "0x68" "[1, 2, 3]"]
  by (simp add: createPacket_def Uint8Array_def)

text \<open>
  Claim C1 as it is worded, for every list of data bytes, fails at a list of 256 bytes:
  byte 3 of the frame is 0, not 256.
\<close>

theorem createPacket_dataLength_counterexample:
  "idx (createPacket 0x68 (replicate 256 0)) 3 \<noteq> Some (int (length (replicate 256 (0::int))))"
  by (simp add: createPacket_def Let_def Uint8Array_def idx_def)

section \<open>Properties of the cipher\<close>

lemma js_rem_nonneg: "0 \<le> a \<Longrightarrow> js_rem a b = a mod \<bar>b\<bar>"
  by (cases "a = 0") (simp_all add: js_rem_def sgn_if)

lemma js_xor_byte:
  assumes "0 \<le> b" "b < 256" "0 \<le> k" "k < 256"
  shows "js_xor b k = b XOR k" "0 \<le> b XOR k" "b XOR k < 256"
proof -
  have "take_bit 8 (b XOR k) = take_bit 8 b XOR take_bit 8 k" by (rule take_bit_xor)
  also have "\<dots> = b XOR k" using assms by (simp add: take_bit_int_eq_self)
  finally have "take_bit 8 (b XOR k) = b XOR k" .
  then have r: "0 \<le> b XOR k \<and> b XOR k < 2^8" by (metis take_bit_int_eq_self_iff)
  then show "0 \<le> b XOR k" "b XOR k < 256" by simp_all
  show "js_xor b k = b XOR k" using assms by (simp add: js_xor_def ToInt32_small)
qed

lemma encrypt_byte:
  assumes "0 \<le> b" "b < 256" "0 \<le> k" "k < 256"
  shows "js_rem (js_xor b k) 256 = b XOR k"
  using js_xor_byte[OF assms] by (simp add: js_rem_nonneg)

lemma encrypt_twice:
  assumes "0 \<le> b" "b < 256" "0 \<le> k" "k < 256"
  shows "js_rem (js_xor (js_rem (js_xor b k) 256) k) 256 = b"
proof -
  have "js_rem (js_xor (b XOR k) k) 256 = (b XOR k) XOR k"
    using js_xor_byte(2,3)[OF assms] assms(3,4) by (rule encrypt_byte)
  then show ?thesis by (simp add: encrypt_byte[OF assms] xor.assoc)
qed

text \<open>
  Claim C8. For every key \<open>k\<close> in 0..255, applying \<open>encryptData\<close> twice with \<open>k\<close>
  gives back the input: for a single byte \<open>b\<close>, and element by element for every list
  of bytes.
\<close>

theorem encryptData_involution:
  assumes "0 \<le> k" and "k < 256"
  shows "(0 \<le> b \<and> b < 256 \<longrightarrow> encryptData (encryptData [b] k) k = [b])
       \<and> ((\<forall>b\<in>set bs. 0 \<le> b \<and> b < 256) \<longrightarrow> encryptData (encryptData bs k) k = bs)"
proof -
  have "(\<forall>b\<in>set bs. 0 \<le> b \<and> b < 256) \<Longrightarrow> encryptData (encryptData bs k) k = bs" for bs
    using assms by (induction bs) (simp_all add: encryptData_def encrypt_twice)
  then show ?thesis by (metis empty_iff empty_set set_ConsD)
qed

theorem encryptData_involution_witness:
  "encryptData (encryptData [0x01] 0x7A) 0x7A = [0x01]
   \<and> encryptData (encryptData [0x01, 0x58, 0x14, 0x30] 0x7A) 0x7A = [0x01, 0x58, 0x14, 0x30]"
  using encryptData_involution [of "0x7A" "0x01" "[0x01, 0x58, 0x14, 0x30]"]
  by simp

section \<open>Properties of the BCD codec\<close>

lemma bcd_roundtrip_list: "\<forall>n\<in>set [0..99]. bcdToDec (decToBcd n) = n"
  by code_simp

text \<open>
  Claim C9. For every \<open>n\<close> in 0..99, \<open>bcdToDec (decToBcd n) = n\<close>; and \<open>decToBcd\<close>
  maps 0, 9, 23 and 59 to \<open>0x00\<close>, \<open>0x09\<close>, \<open>0x23\<close> and \<open>0x59\<close>.
\<close>

theorem bcd_roundtrip:
  "(\<forall>n. 0 \<le> n \<and> n < 100 \<longrightarrow> bcdToDec (decToBcd n) = n)
   \<and> decToBcd 0 = 0x00 \<and> decToBcd 9 = 0x09 \<and> decToBcd 23 = 0x23 \<and> decToBcd 59 = 0x59"
proof -
  have "bcdToDec (decToBcd n) = n" if "0 \<le> n" "n < 100" for n
  proof -
    have "n \<in> set [0..99]" using that by simp
    then show ?thesis using bcd_roundtrip_list by blast
  qed
  moreover have "decToBcd 0 = 0x00" "decToBcd 9 = 0x09" "decToBcd 23 = 0x23" "decToBcd 59 = 0x59"
    by code_simp+
  ultimately show ?thesis by blast
qed

theorem bcd_roundtrip_witness:
  "bcdToDec (decToBcd 42) = 42 \<and> decToBcd 42 = 0x42"
proof -
  have "bcdToDec (decToBcd 42) = 42" using bcd_roundtrip by simp
  moreover have "decToBcd 42 = 0x42" by code_simp
  ultimately show ?thesis by simp
qed

section \<open>Phone numbers and user ids: the round trip\<close>

lemma dig_cases:
  assumes "c \<in> set ''0123456789''"
  shows "c = CHR ''0'' \<or> c = CHR ''1'' \<or> c = CHR ''2'' \<or> c = CHR ''3'' \<or> c = CHR ''4''
       \<or> c = CHR ''5'' \<or> c = CHR ''6'' \<or> c = CHR ''7'' \<or> c = CHR ''8'' \<or> c = CHR ''9''"
  using assms by simp

lemma dig_parse:
  assumes "c \<in> set ''0123456789''"
  shows "isHexDigit c \<and> \<not> isWhiteSpace c \<and> c \<noteq> CHR ''-'' \<and> c \<noteq> CHR ''+''
    \<and> c \<noteq> CHR ''x'' \<and> c \<noteq> CHR ''X''"
  using dig_cases[OF assms]
  by (elim disjE) (simp_all add: isHexDigit_def isWhiteSpace_def)

lemma dig_val:
  assumes "c \<in> set ''0123456789''"
  shows "\<exists>d<10. hexDigitVal c = int d \<and> digitChar d = c \<and> (d = 0 \<longrightarrow> c = CHR ''0'')"
  using dig_cases[OF assms]
proof (elim disjE)
  assume "c = CHR ''0''" then show ?thesis by (intro exI[of _ 0]) (simp add: hexDigitVal_def digitChar_def)
next
  assume "c = CHR ''1''" then show ?thesis by (intro exI[of _ 1]) (simp add: hexDigitVal_def digitChar_def)
next
  assume "c = CHR ''2''" then show ?thesis by (intro exI[of _ 2]) (simp add: hexDigitVal_def digitChar_def)
next
  assume "c = CHR ''3''" then show ?thesis by (intro exI[of _ 3]) (simp add: hexDigitVal_def digitChar_def)
next
  assume "c = CHR ''4''" then show ?thesis by (intro exI[of _ 4]) (simp add: hexDigitVal_def digitChar_def)
next
  assume "c = CHR ''5''" then show ?thesis by (intro exI[of _ 5]) (simp add: hexDigitVal_def digitChar_def)
next
  assume "c = CHR ''6''" then show ?thesis by (intro exI[of _ 6]) (simp add: hexDigitVal_def digitChar_def)
next
  assume "c = CHR ''7''" then show ?thesis by (intro exI[of _ 7]) (simp add: hexDigitVal_def digitChar_def)
next
  assume "c = CHR ''8''" then show ?thesis by (intro exI[of _ 8]) (simp add: hexDigitVal_def digitChar_def)
next
  assume "c = CHR ''9''" then show ?thesis by (intro exI[of _ 9]) (simp add: hexDigitVal_def digitChar_def)
qed

lemma toDigits_one: "d < 16 \<Longrightarrow> toDigits 16 d = [digitChar d]"
  by (subst toDigits.simps) simp

lemma toDigits_two: "0 < x \<Longrightarrow> x < 16 \<Longrightarrow> y < 16 \<Longrightarrow> toDigits 16 (16 * x + y) = [digitChar x, digitChar y]"
  by (subst toDigits.simps) (simp add: toDigits_one)

lemma digit_pair:
  assumes "a \<in> set ''0123456789''" "b \<in> set ''0123456789''"
  shows "padStart (toString16 (parseInt16 [a, b])) 2 CHR ''0'' = [a, b]"
proof -
  obtain x where xlt: "x < 10" and xa: "hexDigitVal a = int x" and xc: "digitChar x = a"
    and x0: "x = 0 \<longrightarrow> a = CHR ''0''"
    using dig_val[OF assms(1)] by blast
  obtain y where ylt: "y < 10" and yb: "hexDigitVal b = int y" and yc: "digitChar y = b"
    using dig_val[OF assms(2)] by blast
  have p: "parseInt16 [a, b] = Num (int (16 * x + y))"
    using dig_parse[OF assms(1)] dig_parse[OF assms(2)]
    by (simp add: parseInt16_def xa yb)
  have ts: "toString16 (parseInt16 [a, b]) = toDigits 16 (16 * x + y)"
    unfolding p toString16_def intToString_def by (simp add: nat_add_distrib nat_mult_distrib)
  show ?thesis
  proof (cases "x = 0")
    case True
    then have a: "a = CHR ''0''" using x0 by simp
    have "toDigits 16 (16 * x + y) = [b]" using True ylt yc by (simp add: toDigits_one)
    then show ?thesis unfolding ts by (simp add: padStart_def a)
  next
    case False
    then have "toDigits 16 (16 * x + y) = [a, b]"
      using toDigits_two[of x y] xlt ylt xc yc by simp
    then show ?thesis unfolding ts by (simp add: padStart_def)
  qed
qed

lemma len12:
  assumes "length (p::string) = 12"
  obtains a0 a1 a2 a3 a4 a5 a6 a7 a8 a9 a10 a11 where "p = [a0,a1,a2,a3,a4,a5,a6,a7,a8,a9,a10,a11]"
proof -
  obtain a0 p1 where e0: "p = a0 # p1" "length p1 = 11"
    using assms by (cases p) auto
  obtain a1 p2 where e1: "p1 = a1 # p2" "length p2 = 10"
    using e0(2) by (cases p1) auto
  obtain a2 p3 where e2: "p2 = a2 # p3" "length p3 = 9"
    using e1(2) by (cases p2) auto
  obtain a3 p4 where e3: "p3 = a3 # p4" "length p4 = 8"
    using e2(2) by (cases p3) auto
  obtain a4 p5 where e4: "p4 = a4 # p5" "length p5 = 7"
    using e3(2) by (cases p4) auto
  obtain a5 p6 where e5: "p5 = a5 # p6" "length p6 = 6"
    using e4(2) by (cases p5) auto
  obtain a6 p7 where e6: "p6 = a6 # p7" "length p7 = 5"
    using e5(2) by (cases p6) auto
  obtain a7 p8 where e7: "p7 = a7 # p8" "length p8 = 4"
    using e6(2) by (cases p7) auto
  obtain a8 p9 where e8: "p8 = a8 # p9" "length p9 = 3"
    using e7(2) by (cases p8) auto
  obtain a9 p10 where e9: "p9 = a9 # p10" "length p10 = 2"
    using e8(2) by (cases p9) auto
  obtain a10 p11 where e10: "p10 = a10 # p11" "length p11 = 1"
    using e9(2) by (cases p10) auto
  obtain a11 p12 where e11: "p11 = a11 # p12" "length p12 = 0"
    using e10(2) by (cases p11) auto
  have "p12 = []" using e11(2) by simp
  then have "p = [a0,a1,a2,a3,a4,a5,a6,a7,a8,a9,a10,a11]"
    by (simp add: e0(1) e1(1) e2(1) e3(1) e4(1) e5(1) e6(1) e7(1) e8(1) e9(1) e10(1) e11(1))
  then show ?thesis by (rule that)
qed

lemma roundtrip12:
  assumes "length p = 12" "\<forall>c\<in>set p. c \<in> set ''0123456789''"
  shows "join [] (map (\<lambda>b. padStart (toString16 b) 2 CHR ''0'') (parsePhoneNumber p)) = p"
proof -
  obtain a0 a1 a2 a3 a4 a5 a6 a7 a8 a9 a10 a11 where p: "p = [a0,a1,a2,a3,a4,a5,a6,a7,a8,a9,a10,a11]"
    using assms(1) by (rule len12)
  have d: "\<And>a b. a \<in> set p \<Longrightarrow> b \<in> set p \<Longrightarrow> padStart (toString16 (parseInt16 [a, b])) 2 CHR ''0'' = [a, b]"
    using digit_pair assms(2) by blast
  have "padStart p 12 CHR ''0'' = p" using assms(1) by (simp add: padStart_def)
  then have "parsePhoneNumber p = [parseInt16 [a0,a1], parseInt16 [a2,a3], parseInt16 [a4,a5],
      parseInt16 [a6,a7], parseInt16 [a8,a9], parseInt16 [a10,a11]]"
    by (simp add: parsePhoneNumber_def substr_def p)
  moreover have "padStart (toString16 (parseInt16 [a0, a1])) 2 CHR ''0'' = [a0, a1]" by (rule d) (simp_all add: p)
  moreover have "padStart (toString16 (parseInt16 [a2, a3])) 2 CHR ''0'' = [a2, a3]" by (rule d) (simp_all add: p)
  moreover have "padStart (toString16 (parseInt16 [a4, a5])) 2 CHR ''0'' = [a4, a5]" by (rule d) (simp_all add: p)
  moreover have "padStart (toString16 (parseInt16 [a6, a7])) 2 CHR ''0'' = [a6, a7]" by (rule d) (simp_all add: p)
  moreover have "padStart (toString16 (parseInt16 [a8, a9])) 2 CHR ''0'' = [a8, a9]" by (rule d) (simp_all add: p)
  moreover have "padStart (toString16 (parseInt16 [a10, a11])) 2 CHR ''0'' = [a10, a11]" by (rule d) (simp_all add: p)
  ultimately show ?thesis by (simp add: p)
qed

lemma userId_roundtrip:
  assumes "\<forall>c\<in>set s. c \<in> set ''0123456789''" "length s \<le> 12"
  shows "parseUserId (parsePhoneNumber s) = dropWhile (\<lambda>c. c = CHR ''0'') s"
proof -
  let ?p = "padStart s 12 CHR ''0''"
  have l: "length ?p = 12" using assms(2) by (simp add: padStart_def)
  have "CHR ''0'' \<in> set ''0123456789''" by simp
  then have dg: "\<forall>c\<in>set ?p. c \<in> set ''0123456789''"
    using assms(1) unfolding padStart_def set_append by (metis Un_iff in_set_replicate)
  have "padStart ?p 12 CHR ''0'' = ?p" using l by (simp add: padStart_def[of ?p])
  then have pp: "parsePhoneNumber ?p = parsePhoneNumber s"
    by (simp add: parsePhoneNumber_def)
  have "parseUserId (parsePhoneNumber s) = dropWhile (\<lambda>c. c = CHR ''0'') ?p"
    using roundtrip12[OF l dg] unfolding pp parseUserId_def by simp
  also have "\<dots> = dropWhile (\<lambda>c. c = CHR ''0'') s"
    by (simp add: padStart_def dropWhile_append)
  finally show ?thesis .
qed

text \<open>
  Claim C10. For every text \<open>s\<close> of 1 to 12 decimal digits,
  \<open>parseUserId (parsePhoneNumber s)\<close> is \<open>s\<close> without its leading zeros: not empty
  when \<open>s\<close> has a digit other than 0, and the empty text when \<open>s\<close> has none.
\<close>

theorem parseUserId_parsePhoneNumber:
  assumes "\<forall>c\<in>set s. c \<in> set ''0123456789''" and "1 \<le> length s" and "length s \<le> 12"
  shows "parseUserId (parsePhoneNumber s) = dropWhile (\<lambda>c. c = CHR ''0'') s
     \<and> ((\<exists>c\<in>set s. c \<noteq> CHR ''0'') \<longrightarrow> parseUserId (parsePhoneNumber s) \<noteq> [])
     \<and> ((\<forall>c\<in>set s. c = CHR ''0'') \<longrightarrow> parseUserId (parsePhoneNumber s) = [])"
proof -
  have r: "parseUserId (parsePhoneNumber s) = dropWhile (\<lambda>c. c = CHR ''0'') s"
    using assms(1) assms(3) by (rule userId_roundtrip)
  have n: "dropWhile (\<lambda>c. c = CHR ''0'') s = [] \<longleftrightarrow> (\<forall>c\<in>set s. c = CHR ''0'')"
    by (rule dropWhile_eq_Nil_conv)
  show ?thesis unfolding r n by blast
qed


theorem parseUserId_parsePhoneNumber_witness:
  "parseUserId (parsePhoneNumber ''001000'') = ''1000''
   \<and> parseUserId (parsePhoneNumber ''15814015470'') = ''15814015470''
   \<and> parseUserId (parsePhoneNumber ''000'') = []"
  using parseUserId_parsePhoneNumber [of "''001000''"]
        parseUserId_parsePhoneNumber [of "''15814015470''"]
        parseUserId_parsePhoneNumber [of "''000''"]
  by simp

section \<open>Properties of user records\<close>

lemma parseUserData_24:
  assumes "length r = 24"
  shows "parseUserData r = [parseChunk r]"
proof -
  have "parseUserData_loop r 24 [parseChunk r] = [parseChunk r]"
    using assms by (subst parseUserData_loop.simps) simp
  then show ?thesis
    unfolding parseUserData_def using assms
    by (subst parseUserData_loop.simps) (simp add: slice_def)
qed

lemma valid_parseChunk:
  assumes "length r = 24"
  shows "valid (parseChunk r) \<longleftrightarrow> r ! 23 = sum_list (take 23 r) mod 256"
  using assms by (simp add: parseChunk_def Let_def idx_def slice_def js_and_FF reduce_add_sum)

lemma sum_list_update_int:
  "i < length xs \<Longrightarrow> sum_list (xs[i := v]) = sum_list xs - xs ! i + (v::int)"
proof (induction xs arbitrary: i)
  case Nil
  then show ?case by simp
next
  case (Cons x xs)
  then show ?case by (cases i) simp_all
qed

lemma byte_diff_mod:
  assumes "0 \<le> v" "v < 256" "0 \<le> b" "b < 256" "v \<noteq> (b::int)"
  shows "(s - b + v) mod 256 \<noteq> s mod 256"
proof
  assume "(s - b + v) mod 256 = s mod 256"
  then have "256 dvd (s - b + v) - s" by (simp add: mod_eq_dvd_iff)
  then have "256 dvd v - b" by (simp add: algebra_simps)
  then obtain k where k: "v - b = 256 * k" by (auto simp: dvd_def)
  with assms show False by (cases "k \<le> 0"; cases "k = 0") auto
qed

text \<open>
  Claim C4. For a record of 24 bytes whose last byte is the low byte of the sum of the 23
  bytes before it, \<open>parseUserData\<close> returns one user with \<open>valid = true\<close>; and when
  exactly one of the 24 bytes is replaced by a different byte, it returns one user with
  \<open>valid = false\<close>.
\<close>

theorem parseUserData_valid:
  assumes "length r = 24"
    and "\<forall>b\<in>set r. 0 \<le> b \<and> b < 256"
    and "r ! 23 = sum_list (take 23 r) mod 256"
  shows "map valid (parseUserData r) = [True]
       \<and> (\<forall>i v. i < 24 \<and> 0 \<le> v \<and> v < 256 \<and> v \<noteq> r ! i \<longrightarrow>
            map valid (parseUserData (r[i := v])) = [False])"
proof -
  have ok: "map valid (parseUserData r) = [True]"
    using assms(1,3) by (simp add: parseUserData_24 valid_parseChunk)
  have bad: "map valid (parseUserData (r[i := v])) = [False]"
    if h: "i < 24" "0 \<le> v" "v < 256" "v \<noteq> r ! i" for i v
  proof -
    have len: "length (r[i := v]) = 24" using assms(1) by simp
    have "r[i := v] ! 23 \<noteq> sum_list (take 23 (r[i := v])) mod 256"
    proof (cases "i = 23")
      case True
      then have "take 23 (r[i := v]) = take 23 r" by simp
      moreover have "r[i := v] ! 23 = v" using True assms(1) by simp
      ultimately show ?thesis using h(4) True assms(3) by simp
    next
      case False
      then have i: "i < 23" using h(1) by simp
      have b: "0 \<le> r ! i \<and> r ! i < 256" using assms(1,2) h(1) by (simp add: all_set_conv_all_nth)
      have "take 23 (r[i := v]) = (take 23 r)[i := v]" by (simp add: take_update_swap)
      then have "sum_list (take 23 (r[i := v])) = sum_list (take 23 r) - r ! i + v"
        using i assms(1) by (simp add: sum_list_update_int)
      moreover have "r[i := v] ! 23 = r ! 23" using False by simp
      ultimately show ?thesis
        using byte_diff_mod[of v "r ! i" "sum_list (take 23 r)"] h(2,3,4) b assms(3) by simp
    qed
    then show ?thesis using len by (simp add: parseUserData_24 valid_parseChunk)
  qed
  show ?thesis using ok bad by blast
qed

theorem parseUserData_valid_witness:
  "map valid (parseUserData [0x02, 0, 0, 0, 0, 0x10, 0x00, 0x41, 0x41, 0x41, 0x41, 0x41, 0x41,
       0x25, 0x01, 0x01, 0x00, 0x00, 0x26, 0x01, 0x01, 0x00, 0x00, 0xE7]) = [True]
   \<and> map valid (parseUserData [0x03, 0, 0, 0, 0, 0x10, 0x00, 0x41, 0x41, 0x41, 0x41, 0x41, 0x41,
       0x25, 0x01, 0x01, 0x00, 0x00, 0x26, 0x01, 0x01, 0x00, 0x00, 0xE7]) = [False]"
proof -
  let ?r = "[0x02, 0, 0, 0, 0, 0x10, 0x00, 0x41, 0x41, 0x41, 0x41, 0x41, 0x41,
       0x25, 0x01, 0x01, 0x00, 0x00, 0x26, 0x01, 0x01, 0x00, 0x00, 0xE7] :: int list"
  have h: "length ?r = 24" "\<forall>b\<in>set ?r. 0 \<le> b \<and> b < 256" "?r ! 23 = sum_list (take 23 ?r) mod 256"
    by simp_all
  note t = parseUserData_valid [OF h]
  have "map valid (parseUserData (?r[0 := 0x03])) = [False]"
    using t [THEN conjunct2, rule_format, of 0 "0x03"] by simp
  then show ?thesis using t [THEN conjunct1] by simp
qed

section \<open>Properties of the fragment buffer\<close>

lemma parseUserData_48:
  assumes "length p1 = 24" "length p2 = 24"
  shows "parseUserData (p1 @ p2) = [parseChunk p1, parseChunk p2]"
proof -
  have 3: "parseUserData_loop (p1 @ p2) 48 [parseChunk p1, parseChunk p2] = [parseChunk p1, parseChunk p2]"
    using assms by (subst parseUserData_loop.simps) simp
  have 2: "parseUserData_loop (p1 @ p2) 24 [parseChunk p1] = [parseChunk p1, parseChunk p2]"
    using assms 3 by (subst parseUserData_loop.simps) (simp add: slice_def)
  show ?thesis
    unfolding parseUserData_def using assms 2
    by (subst parseUserData_loop.simps) (simp add: slice_def)
qed

lemma parseUserData_72:
  assumes "length p0 = 24" "length p1 = 24" "length p2 = 24"
  shows "parseUserData (p0 @ p1 @ p2) = [parseChunk p0, parseChunk p1, parseChunk p2]"
proof -
  have 4: "parseUserData_loop (p0 @ p1 @ p2) 72 [parseChunk p0, parseChunk p1, parseChunk p2]
      = [parseChunk p0, parseChunk p1, parseChunk p2]"
    using assms by (subst parseUserData_loop.simps) simp
  have 3: "parseUserData_loop (p0 @ p1 @ p2) 48 [parseChunk p0, parseChunk p1]
      = [parseChunk p0, parseChunk p1, parseChunk p2]"
    using assms 4 by (subst parseUserData_loop.simps) (simp add: slice_def)
  have 2: "parseUserData_loop (p0 @ p1 @ p2) 24 [parseChunk p0]
      = [parseChunk p0, parseChunk p1, parseChunk p2]"
    using assms 3 by (subst parseUserData_loop.simps) (simp add: slice_def)
  show ?thesis
    unfolding parseUserData_def using assms 2
    by (subst parseUserData_loop.simps) (simp add: slice_def)
qed

lemma payload_slice: "drop 6 (take (6 + n) (a # b # c # d # e # f # p)) = take n p"
proof -
  have l: "length [a, b, c, d, e, f] = 6" by simp
  have "take (6 + n) ([a, b, c, d, e, f] @ p) = [a, b, c, d, e, f] @ take n p"
    unfolding take_append l by simp
  then have "drop 6 (take (6 + n) ([a, b, c, d, e, f] @ p)) = drop 6 ([a, b, c, d, e, f] @ take n p)"
    by simp
  also have "\<dots> = take n p" unfolding drop_append l by simp
  finally show ?thesis by simp
qed

lemma handle_6C_partial:
  "handleNotifications st ([h0, 0x6C, 0x24, int n, h4, h5] @ p)
     = (Inr (), st\<lparr>userDataBuffer := userDataBuffer st @ take n p\<rparr>)"
  by (simp add: handleNotifications_def idx_def payloadOf_def slice_def payload_slice)

lemma handle_6C_final:
  "handleNotifications st ([h0, 0x6C, 0x10, int n, h4, h5] @ p)
     = (Inr (), st\<lparr>printedUsers := printedUsers st @ [parseUserData (userDataBuffer st @ take n p)],
                     userDataBuffer := []\<rparr>)"
  by (simp add: handleNotifications_def idx_def payloadOf_def slice_def payload_slice)

lemma handle_6C_final_clears:
  assumes "idx response 1 = Some 0x6C" "idx response 2 = Some 0x10"
  shows "userDataBuffer (snd (handleNotifications st response)) = []"
  using assms by (simp add: handleNotifications_def Let_def)

text \<open>
  Claim C5, as the code has it. When the fragment buffer is empty as the partial
  fragment arrives, a \<open>0x6C\<close> notification with status \<open>0x24\<close> and 24 payload bytes
  followed by one with status \<open>0x10\<close> and 24 payload bytes makes the handler print
  exactly two user records, parsed from the 48 bytes in their order, and leaves the
  buffer empty. And every \<open>0x6C\<close> notification with status \<open>0x10\<close> leaves the buffer
  empty, whatever the state and the bytes it carries; \<open>parseUserData\<close> has no failing
  path.
\<close>

theorem fragment_reassembly:
  assumes "length p1 = 24" and "length p2 = 24" and "userDataBuffer st = []"
  shows "(let (res1, st1) = handleNotifications st ([h0, 0x6C, 0x24, 24, h4, h5] @ p1);
              (res2, st2) = handleNotifications st1 ([g0, 0x6C, 0x10, 24, g4, g5] @ p2)
          in res1 = Inr () \<and> res2 = Inr ()
             \<and> printedUsers st2 = printedUsers st @ [parseUserData (p1 @ p2)]
             \<and> parseUserData (p1 @ p2) = [parseChunk p1, parseChunk p2]
             \<and> length (parseUserData (p1 @ p2)) = 2
             \<and> userDataBuffer st2 = [])
       \<and> (\<forall>s response. idx response 1 = Some 0x6C \<and> idx response 2 = Some 0x10 \<longrightarrow>
             userDataBuffer (snd (handleNotifications s response)) = [])"
proof -
  have a: "handleNotifications st (h0 # 0x6C # 0x24 # 24 # h4 # h5 # p1)
      = (Inr (), st\<lparr>userDataBuffer := p1\<rparr>)"
    using handle_6C_partial[of st h0 24 h4 h5 p1] assms(1,3) by simp
  have b: "handleNotifications (st\<lparr>userDataBuffer := p1\<rparr>) (g0 # 0x6C # 0x10 # 24 # g4 # g5 # p2)
      = (Inr (), st\<lparr>userDataBuffer := p1, printedUsers := printedUsers st @ [parseUserData (p1 @ p2)],
                     userDataBuffer := []\<rparr>)"
    using handle_6C_final[of "st\<lparr>userDataBuffer := p1\<rparr>" g0 24 g4 g5 p2] assms(2) by simp
  have c: "parseUserData (p1 @ p2) = [parseChunk p1, parseChunk p2]"
    using assms(1,2) by (rule parseUserData_48)
  have d: "\<forall>s response. idx response 1 = Some 0x6C \<and> idx response 2 = Some 0x10 \<longrightarrow>
             userDataBuffer (snd (handleNotifications s response)) = []"
    using handle_6C_final_clears by blast
  have "(let (res1, st1) = handleNotifications st ([h0, 0x6C, 0x24, 24, h4, h5] @ p1);
              (res2, st2) = handleNotifications st1 ([g0, 0x6C, 0x10, 24, g4, g5] @ p2)
          in res1 = Inr () \<and> res2 = Inr ()
             \<and> printedUsers st2 = printedUsers st @ [parseUserData (p1 @ p2)]
             \<and> parseUserData (p1 @ p2) = [parseChunk p1, parseChunk p2]
             \<and> length (parseUserData (p1 @ p2)) = 2
             \<and> userDataBuffer st2 = [])"
    by (simp add: a b c)
  then show ?thesis using d by blast
qed

theorem fragment_reassembly_witness:
  "(let (res1, st1) = handleNotifications (connected (initialState (\<lambda>n. True)))
                        ([0xF5, 0x6C, 0x24, 24, 0x5F, 0] @ replicate 24 1);
        (res2, st2) = handleNotifications st1 ([0xF5, 0x6C, 0x10, 24, 0x5F, 0] @ replicate 24 2)
    in res1 = Inr () \<and> res2 = Inr ()
       \<and> map raw (last (printedUsers st2)) = [replicate 24 1, replicate 24 2]
       \<and> userDataBuffer st2 = [])
   \<and> userDataBuffer (snd (handleNotifications
         ((connected (initialState (\<lambda>n. True)))\<lparr>userDataBuffer := [1, 2, 3]\<rparr>)
         [0xF5, 0x6C, 0x10])) = []"
proof -
  have h: "length (replicate 24 (1::int)) = 24" "length (replicate 24 (2::int)) = 24"
      "userDataBuffer (connected (initialState (\<lambda>n. True))) = []"
    by (simp_all add: connected_def initialState_def)
  have r: "raw (parseChunk c) = c" for c by (simp add: parseChunk_def Let_def)
  have "userDataBuffer (snd (handleNotifications
         ((connected (initialState (\<lambda>n. True)))\<lparr>userDataBuffer := [1, 2, 3]\<rparr>)
         [0xF5, 0x6C, 0x10])) = []"
    using fragment_reassembly [OF h, THEN conjunct2, rule_format,
        of "[0xF5, 0x6C, 0x10]"
           "(connected (initialState (\<lambda>n. True)))\<lparr>userDataBuffer := [1, 2, 3]\<rparr>"]
    by (simp add: idx_def)
  then show ?thesis
    using fragment_reassembly [OF h, of "0xF5" "0x5F" 0 "0xF5" "0x5F" 0, THEN conjunct1]
    by (auto simp: Let_def r split: prod.splits)
qed

text \<open>
  Claim C5 as it is worded, with nothing said about the buffer at the start, fails
  after a listing whose final fragment never arrived. The partial fragment of that
  listing leaves its 24 bytes in the buffer, since nothing but a final fragment empties
  it; the partial and the final fragment of the next listing then give three records,
  not two.
\<close>

theorem fragment_reassembly_stale_counterexample:
  "length (last (printedUsers (snd (handleNotifications
      (snd (handleNotifications
        (snd (handleNotifications (connected (initialState (\<lambda>n. True)))
               ([0xF5, 0x6C, 0x24, 24, 0x5F, 0x44] @ replicate 24 0)))
        ([0xF5, 0x6C, 0x24, 24, 0x5F, 0x5C] @ replicate 24 1)))
      ([0xF5, 0x6C, 0x10, 24, 0x5F, 0x60] @ replicate 24 2))))) = 3"
proof -
  let ?s0 = "connected (initialState (\<lambda>n. True))"
  have b0: "userDataBuffer ?s0 = []" by (simp add: connected_def initialState_def)
  have a: "handleNotifications ?s0 (0xF5 # 0x6C # 0x24 # 24 # 0x5F # 0x44 # replicate 24 0)
      = (Inr (), ?s0\<lparr>userDataBuffer := replicate 24 0\<rparr>)"
    using handle_6C_partial [of ?s0 "0xF5" 24 "0x5F" "0x44" "replicate 24 0"] b0 by simp
  have b: "handleNotifications (?s0\<lparr>userDataBuffer := replicate 24 0\<rparr>)
        (0xF5 # 0x6C # 0x24 # 24 # 0x5F # 0x5C # replicate 24 1)
      = (Inr (), ?s0\<lparr>userDataBuffer := replicate 24 0 @ replicate 24 1\<rparr>)"
    using handle_6C_partial [of "?s0\<lparr>userDataBuffer := replicate 24 0\<rparr>" "0xF5" 24 "0x5F" "0x5C"
        "replicate 24 1"] by simp
  have c: "printedUsers (snd (handleNotifications
        (?s0\<lparr>userDataBuffer := replicate 24 0 @ replicate 24 1\<rparr>)
        (0xF5 # 0x6C # 0x10 # 24 # 0x5F # 0x60 # replicate 24 2)))
      = printedUsers ?s0 @ [parseUserData (replicate 24 0 @ replicate 24 1 @ replicate 24 2)]"
    using handle_6C_final [of "?s0\<lparr>userDataBuffer := replicate 24 0 @ replicate 24 1\<rparr>"
        "0xF5" 24 "0x5F" "0x60" "replicate 24 2"] by simp
  have d: "parseUserData (replicate 24 0 @ replicate 24 1 @ replicate 24 2)
      = [parseChunk (replicate 24 0), parseChunk (replicate 24 1), parseChunk (replicate 24 2)]"
    by (rule parseUserData_72) simp_all
  show ?thesis by (simp add: a b c d)
qed

section \<open>Properties of the operations\<close>

text \<open>
  Claim C7. While \<open>isAuthenticated\<close> is false, \<open>createUser\<close> and \<open>deleteAllUsers\<close> fail
  with the error \<open>Please authenticate first.\<close> and leave the state as it was: no packet
  is written and no write is attempted.
\<close>

theorem not_authenticated:
  assumes "\<not> isAuthenticated st"
  shows "createUser st uid startDate endDate once = (Inl (Error ''Please authenticate first.''), st)
       \<and> deleteAllUsers st = (Inl (Error ''Please authenticate first.''), st)
       \<and> written (snd (createUser st uid startDate endDate once)) = written st
       \<and> attempts (snd (createUser st uid startDate endDate once)) = attempts st
       \<and> written (snd (deleteAllUsers st)) = written st
       \<and> attempts (snd (deleteAllUsers st)) = attempts st"
  using assms by (simp add: createUser_def deleteAllUsers_def)

theorem not_authenticated_witness:
  "createUser (connected (initialState (\<lambda>n. True))) ''1000''
       \<lparr>getFullYear = 2025, getMonth = 0, getDate = 1, getHours = 0, getMinutes = 0\<rparr>
       \<lparr>getFullYear = 2026, getMonth = 0, getDate = 1, getHours = 0, getMinutes = 0\<rparr> True
     = (Inl (Error ''Please authenticate first.''), connected (initialState (\<lambda>n. True)))
   \<and> deleteAllUsers (connected (initialState (\<lambda>n. True)))
     = (Inl (Error ''Please authenticate first.''), connected (initialState (\<lambda>n. True)))
   \<and> written (snd (deleteAllUsers (connected (initialState (\<lambda>n. True))))) = []"
  using not_authenticated [of "connected (initialState (\<lambda>n. True))" "''1000''"
       "\<lparr>getFullYear = 2025, getMonth = 0, getDate = 1, getHours = 0, getMinutes = 0\<rparr>"
       "\<lparr>getFullYear = 2026, getMonth = 0, getDate = 1, getHours = 0, getMinutes = 0\<rparr>" True]
  by (simp add: connected_def initialState_def)

lemma writeWithRetry_cases:
  "writeWithRetry st packet =
     (if writeCharacteristic st = None
      then (Inl (TypeError ''writeCharacteristic has no value''), st)
      else if link st (attempts st)
      then (Inr (), st\<lparr>attempts := attempts st + 1, written := written st @ [packet]\<rparr>)
      else if link st (attempts st + 1)
      then (Inr (), st\<lparr>attempts := attempts st + 2, written := written st @ [packet]\<rparr>)
      else if link st (attempts st + 2)
      then (Inr (), st\<lparr>attempts := attempts st + 3, written := written st @ [packet]\<rparr>)
      else (Inl WriteError, st\<lparr>attempts := attempts st + 3\<rparr>))"
  unfolding writeWithRetry_def
  apply (subst writeWithRetry_loop.simps)
  apply (subst writeWithRetry_loop.simps)
  apply (subst writeWithRetry_loop.simps)
  apply (auto simp: writeValue_def split: option.splits)
  done

lemma systemExit_ok:
  assumes "writeCharacteristic st \<noteq> None"
    and "link st (attempts st) \<or> link st (attempts st + 1) \<or> link st (attempts st + 2)"
  shows "fst (systemExit st) = Inr ()"
    "isAuthenticated (snd (systemExit st)) = False"
    "bluetoothDevice (snd (systemExit st)) = None"
    "writeCharacteristic (snd (systemExit st)) = None"
    "randomCode (snd (systemExit st)) = randomCode st"
    "notifyCharacteristic (snd (systemExit st)) = notifyCharacteristic st"
    "pendingBatteryResolve (snd (systemExit st)) = pendingBatteryResolve st"
    "userDataBuffer (snd (systemExit st)) = userDataBuffer st"
    "last (written (snd (systemExit st))) = createPacket 0x6F []"
  using assms
  by (auto simp: systemExit_def writeWithRetry_cases split: option.splits device.splits bool.splits)

lemma systemExit_fail:
  assumes "\<not> (writeCharacteristic st \<noteq> None
      \<and> (link st (attempts st) \<or> link st (attempts st + 1) \<or> link st (attempts st + 2)))"
  shows "fst (systemExit st) \<noteq> Inr ()"
    "isAuthenticated (snd (systemExit st)) = isAuthenticated st"
    "bluetoothDevice (snd (systemExit st)) = bluetoothDevice st"
    "writeCharacteristic (snd (systemExit st)) = writeCharacteristic st"
    "randomCode (snd (systemExit st)) = randomCode st"
    "notifyCharacteristic (snd (systemExit st)) = notifyCharacteristic st"
    "pendingBatteryResolve (snd (systemExit st)) = pendingBatteryResolve st"
    "userDataBuffer (snd (systemExit st)) = userDataBuffer st"
    "written (snd (systemExit st)) = written st"
  using assms
  by (auto simp: systemExit_def writeWithRetry_cases split: option.splits)

text \<open>
  Claim C3, as the code has it. When the shutdown packet is written within the three
  attempts of \<open>writeWithRetry\<close>, acknowledged or not, \<open>systemExit\<close> succeeds and leaves
  \<open>isAuthenticated\<close> false and \<open>bluetoothDevice\<close> and \<open>writeCharacteristic\<close> empty; the
  random code, \<open>notifyCharacteristic\<close>, the pending battery slot and the fragment buffer
  stay as they were. When the write fails, \<open>systemExit\<close> fails with the error of the
  write and every one of these variables, \<open>isAuthenticated\<close> included, stays as it was.
\<close>

theorem systemExit_reset:
  "(writeCharacteristic st \<noteq> None
      \<and> (link st (attempts st) \<or> link st (attempts st + 1) \<or> link st (attempts st + 2)) \<longrightarrow>
        fst (systemExit st) = Inr ()
      \<and> isAuthenticated (snd (systemExit st)) = False
      \<and> bluetoothDevice (snd (systemExit st)) = None
      \<and> writeCharacteristic (snd (systemExit st)) = None
      \<and> randomCode (snd (systemExit st)) = randomCode st
      \<and> notifyCharacteristic (snd (systemExit st)) = notifyCharacteristic st
      \<and> pendingBatteryResolve (snd (systemExit st)) = pendingBatteryResolve st
      \<and> userDataBuffer (snd (systemExit st)) = userDataBuffer st)
   \<and> (\<not> (writeCharacteristic st \<noteq> None
      \<and> (link st (attempts st) \<or> link st (attempts st + 1) \<or> link st (attempts st + 2))) \<longrightarrow>
        fst (systemExit st) \<noteq> Inr ()
      \<and> isAuthenticated (snd (systemExit st)) = isAuthenticated st
      \<and> bluetoothDevice (snd (systemExit st)) = bluetoothDevice st
      \<and> writeCharacteristic (snd (systemExit st)) = writeCharacteristic st
      \<and> randomCode (snd (systemExit st)) = randomCode st
      \<and> notifyCharacteristic (snd (systemExit st)) = notifyCharacteristic st
      \<and> pendingBatteryResolve (snd (systemExit st)) = pendingBatteryResolve st
      \<and> userDataBuffer (snd (systemExit st)) = userDataBuffer st
      \<and> written (snd (systemExit st)) = written st)"
proof (intro conjI impI)
  assume "writeCharacteristic st \<noteq> None
      \<and> (link st (attempts st) \<or> link st (attempts st + 1) \<or> link st (attempts st + 2))"
  then have h: "writeCharacteristic st \<noteq> None"
     "link st (attempts st) \<or> link st (attempts st + 1) \<or> link st (attempts st + 2)"
    by simp_all
  note ok = systemExit_ok [OF h]
  show "fst (systemExit st) = Inr ()" by (rule ok(1))
  show "isAuthenticated (snd (systemExit st)) = False" by (rule ok(2))
  show "bluetoothDevice (snd (systemExit st)) = None" by (rule ok(3))
  show "writeCharacteristic (snd (systemExit st)) = None" by (rule ok(4))
  show "randomCode (snd (systemExit st)) = randomCode st" by (rule ok(5))
  show "notifyCharacteristic (snd (systemExit st)) = notifyCharacteristic st" by (rule ok(6))
  show "pendingBatteryResolve (snd (systemExit st)) = pendingBatteryResolve st" by (rule ok(7))
  show "userDataBuffer (snd (systemExit st)) = userDataBuffer st" by (rule ok(8))
next
  assume h: "\<not> (writeCharacteristic st \<noteq> None
      \<and> (link st (attempts st) \<or> link st (attempts st + 1) \<or> link st (attempts st + 2)))"
  note f = systemExit_fail [OF h]
  show "fst (systemExit st) \<noteq> Inr ()" by (rule f(1))
  show "isAuthenticated (snd (systemExit st)) = isAuthenticated st" by (rule f(2))
  show "bluetoothDevice (snd (systemExit st)) = bluetoothDevice st" by (rule f(3))
  show "writeCharacteristic (snd (systemExit st)) = writeCharacteristic st" by (rule f(4))
  show "randomCode (snd (systemExit st)) = randomCode st" by (rule f(5))
  show "notifyCharacteristic (snd (systemExit st)) = notifyCharacteristic st" by (rule f(6))
  show "pendingBatteryResolve (snd (systemExit st)) = pendingBatteryResolve st" by (rule f(7))
  show "userDataBuffer (snd (systemExit st)) = userDataBuffer st" by (rule f(8))
  show "written (snd (systemExit st)) = written st" by (rule f(9))
qed

theorem systemExit_reset_witness:
  "fst (systemExit ((connected (initialState (\<lambda>n. True)))
          \<lparr>randomCode := Some 0x7A, isAuthenticated := True\<rparr>)) = Inr ()
   \<and> isAuthenticated (snd (systemExit ((connected (initialState (\<lambda>n. True)))
          \<lparr>randomCode := Some 0x7A, isAuthenticated := True\<rparr>))) = False
   \<and> writeCharacteristic (snd (systemExit ((connected (initialState (\<lambda>n. True)))
          \<lparr>randomCode := Some 0x7A, isAuthenticated := True\<rparr>))) = None
   \<and> fst (systemExit ((connected (initialState (\<lambda>n. False)))
          \<lparr>randomCode := Some 0x7A, isAuthenticated := True\<rparr>)) \<noteq> Inr ()
   \<and> writeCharacteristic (snd (systemExit ((connected (initialState (\<lambda>n. False)))
          \<lparr>randomCode := Some 0x7A, isAuthenticated := True\<rparr>))) = Some ()"
  using systemExit_reset [of "(connected (initialState (\<lambda>n. True)))
          \<lparr>randomCode := Some 0x7A, isAuthenticated := True\<rparr>"]
        systemExit_reset [of "(connected (initialState (\<lambda>n. False)))
          \<lparr>randomCode := Some 0x7A, isAuthenticated := True\<rparr>"]
  by (simp add: connected_def initialState_def)

text \<open>
  Claim C3 as it is worded fails twice. With a transport that refuses every write,
  \<open>systemExit\<close> ends with the write error and \<open>isAuthenticated\<close> is still true. With a
  transport that accepts the write, \<open>systemExit\<close> succeeds and the random code and
  \<open>notifyCharacteristic\<close> are still set.
\<close>

theorem systemExit_reset_counterexample:
  "fst (systemExit ((connected (initialState (\<lambda>n. False)))
          \<lparr>randomCode := Some 0x7A, isAuthenticated := True\<rparr>)) = Inl WriteError
   \<and> isAuthenticated (snd (systemExit ((connected (initialState (\<lambda>n. False)))
          \<lparr>randomCode := Some 0x7A, isAuthenticated := True\<rparr>))) = True
   \<and> fst (systemExit ((connected (initialState (\<lambda>n. True)))
          \<lparr>randomCode := Some 0x7A, isAuthenticated := True\<rparr>)) = Inr ()
   \<and> randomCode (snd (systemExit ((connected (initialState (\<lambda>n. True)))
          \<lparr>randomCode := Some 0x7A, isAuthenticated := True\<rparr>))) = Some 0x7A
   \<and> notifyCharacteristic (snd (systemExit ((connected (initialState (\<lambda>n. True)))
          \<lparr>randomCode := Some 0x7A, isAuthenticated := True\<rparr>))) = Some ()"
  by (simp add: systemExit_def writeWithRetry_cases connected_def initialState_def)

section \<open>Properties of the battery request\<close>

lemma handle_other_battery:
  assumes "\<not> (idx r 1 = Some 0x60 \<and> idx r 2 = Some 0x10)"
  shows "pendingBatteryResolve (snd (handleNotifications s r)) = pendingBatteryResolve s"
    "timers (snd (handleNotifications s r)) = timers s"
    "promises (snd (handleNotifications s r)) = promises s"
  using assms
  by (auto simp: handleNotifications_def Let_def authenticateAdmin_def writeValue_noawait_def
        writeValue_def split: option.splits)

lemma handleAll_battery:
  assumes "\<forall>r\<in>set rs. \<not> (idx r 1 = Some 0x60 \<and> idx r 2 = Some 0x10)"
  shows "pendingBatteryResolve (handleAll s rs) = pendingBatteryResolve s
       \<and> timers (handleAll s rs) = timers s
       \<and> promises (handleAll s rs) = promises s"
  using assms unfolding handleAll_def
proof (induction rs arbitrary: s)
  case Nil
  then show ?case by simp
next
  case (Cons r rs)
  then show ?case by (simp add: handle_other_battery)
qed

lemma handle_60_no_pending:
  assumes "pendingBatteryResolve s = None" "idx r 1 = Some 0x60"
  shows "handleNotifications s r = (Inr (), s)"
  using assms by (simp add: handleNotifications_def Let_def)


lemma getBatteryLevel_busy:
  assumes "pendingBatteryResolve st \<noteq> None" "promises st (nextPromise st) = None"
  shows "fst (getBatteryLevel st) = nextPromise st"
    "promises (snd (getBatteryLevel st)) (nextPromise st)
       = Some (Rejected (Error ''There is already a battery request running.''))"
    "written (snd (getBatteryLevel st)) = written st"
    "attempts (snd (getBatteryLevel st)) = attempts st"
    "pendingBatteryResolve (snd (getBatteryLevel st)) = pendingBatteryResolve st"
    "timers (snd (getBatteryLevel st)) = timers st"
  using assms by (auto simp: getBatteryLevel_def Let_def settle_def)

lemma getBatteryLevel_sent:
  assumes "pendingBatteryResolve st = None" "writeCharacteristic st \<noteq> None"
    "link st (attempts st) \<or> link st (attempts st + 1) \<or> link st (attempts st + 2)"
  shows "fst (getBatteryLevel st) = nextPromise st"
    "pendingBatteryResolve (snd (getBatteryLevel st)) = Some (nextPromise st)"
    "timers (snd (getBatteryLevel st)) = timers st @ [nextPromise st]"
    "promises (snd (getBatteryLevel st)) = promises st"
    "written (snd (getBatteryLevel st)) = written st @ [createPacket 0x60 []]"
  using assms by (auto simp: getBatteryLevel_def Let_def writeWithRetry_cases)

lemma batteryTimeout_fires:
  assumes "p \<in> set (timers s)" "promises s p = None"
  shows "promises (batteryTimeout p s) p = Some (Rejected (Error ''Timeout after 5 seconds''))"
    "pendingBatteryResolve (batteryTimeout p s) = None"
  using assms by (simp_all add: batteryTimeout_def settle_def)

text \<open>
  What the guard of line 239 and the timer do. Called while \<open>pendingBatteryResolve\<close> is
  set, \<open>getBatteryLevel\<close> rejects its promise at once and writes nothing. Called with
  the slot empty and the request written, it occupies the slot; if the notifications
  \<open>rs\<close> that arrive before its timer runs hold no \<open>0x60\<close> response with status
  \<open>0x10\<close>, the timer rejects the promise with \<open>Timeout after 5 seconds\<close> and empties
  the slot, and from then on every \<open>0x60\<close> notification changes nothing.
\<close>

lemma getBatteryLevel_guard_and_timeout:
  "(pendingBatteryResolve st \<noteq> None \<and> promises st (nextPromise st) = None \<longrightarrow>
      (let (p, st1) = getBatteryLevel st
       in promises st1 p = Some (Rejected (Error ''There is already a battery request running.''))
          \<and> written st1 = written st \<and> attempts st1 = attempts st
          \<and> pendingBatteryResolve st1 = pendingBatteryResolve st))
   \<and> (pendingBatteryResolve st = None \<and> promises st (nextPromise st) = None
        \<and> writeCharacteristic st \<noteq> None
        \<and> (link st (attempts st) \<or> link st (attempts st + 1) \<or> link st (attempts st + 2))
        \<and> (\<forall>r\<in>set rs. \<not> (idx r 1 = Some 0x60 \<and> idx r 2 = Some 0x10)) \<longrightarrow>
      (let (p, st1) = getBatteryLevel st;
           st2 = handleAll st1 rs;
           st3 = batteryTimeout p st2
       in written st1 = written st @ [createPacket 0x60 []]
          \<and> pendingBatteryResolve st1 = Some p
          \<and> promises st2 p = None
          \<and> promises st3 p = Some (Rejected (Error ''Timeout after 5 seconds''))
          \<and> pendingBatteryResolve st3 = None
          \<and> (\<forall>stray. idx stray 1 = Some 0x60 \<longrightarrow>
                handleNotifications st3 stray = (Inr (), st3))))"
proof (intro conjI impI)
  assume "pendingBatteryResolve st \<noteq> None \<and> promises st (nextPromise st) = None"
  then have h: "pendingBatteryResolve st \<noteq> None" "promises st (nextPromise st) = None"
    by simp_all
  show "let (p, st1) = getBatteryLevel st
       in promises st1 p = Some (Rejected (Error ''There is already a battery request running.''))
          \<and> written st1 = written st \<and> attempts st1 = attempts st
          \<and> pendingBatteryResolve st1 = pendingBatteryResolve st"
    using getBatteryLevel_busy [OF h] by (simp add: case_prod_unfold)
next
  assume a: "pendingBatteryResolve st = None \<and> promises st (nextPromise st) = None
        \<and> writeCharacteristic st \<noteq> None
        \<and> (link st (attempts st) \<or> link st (attempts st + 1) \<or> link st (attempts st + 2))
        \<and> (\<forall>r\<in>set rs. \<not> (idx r 1 = Some 0x60 \<and> idx r 2 = Some 0x10))"
  then have h: "pendingBatteryResolve st = None" "writeCharacteristic st \<noteq> None"
      "link st (attempts st) \<or> link st (attempts st + 1) \<or> link st (attempts st + 2)"
    by simp_all
  from a have fresh: "promises st (nextPromise st) = None" by simp
  from a have rs: "\<forall>r\<in>set rs. \<not> (idx r 1 = Some 0x60 \<and> idx r 2 = Some 0x10)" by simp
  define p where "p = fst (getBatteryLevel st)"
  define st1 where "st1 = snd (getBatteryLevel st)"
  define st2 where "st2 = handleAll st1 rs"
  define st3 where "st3 = batteryTimeout p st2"
  note s = getBatteryLevel_sent [OF h, folded p_def st1_def]
  note k = handleAll_battery [OF rs, of st1, folded st2_def]
  have p: "p \<in> set (timers st2)" using k s(1,3) by simp
  have u: "promises st2 p = None" using k s(1,4) fresh by simp
  note t = batteryTimeout_fires [OF p u, folded st3_def]
  have "\<forall>stray. idx stray 1 = Some 0x60 \<longrightarrow> handleNotifications st3 stray = (Inr (), st3)"
    using handle_60_no_pending [OF t(2)] by blast
  then have "written st1 = written st @ [createPacket 0x60 []]
          \<and> pendingBatteryResolve st1 = Some p
          \<and> promises st2 p = None
          \<and> promises st3 p = Some (Rejected (Error ''Timeout after 5 seconds''))
          \<and> pendingBatteryResolve st3 = None
          \<and> (\<forall>stray. idx stray 1 = Some 0x60 \<longrightarrow>
                handleNotifications st3 stray = (Inr (), st3))"
    using s(1,2,5) u t by simp
  then show "let (p, st1) = getBatteryLevel st;
           st2 = handleAll st1 rs;
           st3 = batteryTimeout p st2
       in written st1 = written st @ [createPacket 0x60 []]
          \<and> pendingBatteryResolve st1 = Some p
          \<and> promises st2 p = None
          \<and> promises st3 p = Some (Rejected (Error ''Timeout after 5 seconds''))
          \<and> pendingBatteryResolve st3 = None
          \<and> (\<forall>stray. idx stray 1 = Some 0x60 \<longrightarrow>
                handleNotifications st3 stray = (Inr (), st3))"
    unfolding p_def st1_def st2_def st3_def by (simp add: case_prod_unfold Let_def)
qed

text \<open>
  Claim C6, evaluated on the code. The transport refuses the first three writes and
  accepts the later ones.
  \<^item> The first call, promise 0, is rejected with the error of the write, not with a
    timeout; the \<open>catch\<close> of lines 256-259 empties the slot and leaves the timer of
    line 244 running, where the resolving path (line 250) clears it.
  \<^item> The second call, promise 1, is written and takes the slot.
  \<^item> The timer of promise 0 then runs and empties the slot that promise 1 holds. A
    \<open>0x60\<close> response with status \<open>0x10\<close> that arrives now resolves nothing.
  \<^item> The third call, promise 2, is accepted and written while promise 1 is not
    settled: two battery requests are in flight.
\<close>

theorem getBatteryLevel_two_in_flight:
  "fst (getBatteryLevel (connected (initialState (\<lambda>n. 3 \<le> n)))) = 0
   \<and> promises (snd (getBatteryLevel (connected (initialState (\<lambda>n. 3 \<le> n))))) 0
       = Some (Rejected WriteError)
   \<and> timers (snd (getBatteryLevel (connected (initialState (\<lambda>n. 3 \<le> n))))) = [0]
   \<and> fst (getBatteryLevel (snd (getBatteryLevel (connected (initialState (\<lambda>n. 3 \<le> n)))))) = 1
   \<and> pendingBatteryResolve
         (snd (getBatteryLevel (snd (getBatteryLevel (connected (initialState (\<lambda>n. 3 \<le> n)))))))
       = Some 1
   \<and> pendingBatteryResolve (batteryTimeout 0
         (snd (getBatteryLevel (snd (getBatteryLevel (connected (initialState (\<lambda>n. 3 \<le> n))))))))
       = None
   \<and> promises (batteryTimeout 0
         (snd (getBatteryLevel (snd (getBatteryLevel (connected (initialState (\<lambda>n. 3 \<le> n))))))))
         1 = None
   \<and> handleNotifications (batteryTimeout 0
         (snd (getBatteryLevel (snd (getBatteryLevel (connected (initialState (\<lambda>n. 3 \<le> n))))))))
         [0xF5, 0x60, 0x10, 0x04, 0x5F, 0x4F, 0, 0, 0x17, 0x70]
       = (Inr (), batteryTimeout 0
         (snd (getBatteryLevel (snd (getBatteryLevel (connected (initialState (\<lambda>n. 3 \<le> n))))))))
   \<and> fst (getBatteryLevel (batteryTimeout 0
         (snd (getBatteryLevel (snd (getBatteryLevel (connected (initialState (\<lambda>n. 3 \<le> n))))))))) = 2
   \<and> pendingBatteryResolve (snd (getBatteryLevel (batteryTimeout 0
         (snd (getBatteryLevel (snd (getBatteryLevel (connected (initialState (\<lambda>n. 3 \<le> n)))))))))) = Some 2
   \<and> promises (snd (getBatteryLevel (batteryTimeout 0
         (snd (getBatteryLevel (snd (getBatteryLevel (connected (initialState (\<lambda>n. 3 \<le> n)))))))))) 1 = None
   \<and> promises (snd (getBatteryLevel (batteryTimeout 0
         (snd (getBatteryLevel (snd (getBatteryLevel (connected (initialState (\<lambda>n. 3 \<le> n)))))))))) 2 = None
   \<and> written (snd (getBatteryLevel (batteryTimeout 0
         (snd (getBatteryLevel (snd (getBatteryLevel (connected (initialState (\<lambda>n. 3 \<le> n))))))))))
       = [createPacket 0x60 [], createPacket 0x60 []]"
  by (simp add: getBatteryLevel_def batteryTimeout_def settle_def writeWithRetry_cases
        handleNotifications_def idx_def connected_def initialState_def Let_def)

section \<open>Creating users\<close>

text \<open>
  Claim C2, evaluated on the code. In an authenticated session both \<open>createUser\<close> calls,
  for the ids 1000 and 1001, end with a \<open>ReferenceError\<close> at line 327 before anything
  is written, and each of the two \<open>0x68\<close> notifications with status \<open>0x10\<close>, carrying
  \<open>AAAAAA\<close> and \<open>BBBBBB\<close>, makes the handler throw the same error at line 161: no
  promise is resolved and no password is recorded.
\<close>

theorem createUser_reference_error:
  "(let st = (connected (initialState (\<lambda>n. True)))\<lparr>isAuthenticated := True\<rparr>;
        startDate = \<lparr>getFullYear = 2015, getMonth = 10, getDate = 3, getHours = 0, getMinutes = 0\<rparr>;
        endDate = \<lparr>getFullYear = 2026, getMonth = 10, getDate = 3, getHours = 0, getMinutes = 0\<rparr>
    in createUser st ''1000'' startDate endDate True
         = (Inl (ReferenceError ''pendingCreateUserPasswords is not defined''), st)
       \<and> createUser st ''1001'' startDate endDate True
         = (Inl (ReferenceError ''pendingCreateUserPasswords is not defined''), st)
       \<and> handleNotifications st
           [0xF5, 0x68, 0x10, 0x06, 0x5F, 0x58, 0x41, 0x41, 0x41, 0x41, 0x41, 0x41]
         = (Inl (ReferenceError ''pendingCreateUserPasswords is not defined''), st)
       \<and> handleNotifications st
           [0xF5, 0x68, 0x10, 0x06, 0x5F, 0x5E, 0x42, 0x42, 0x42, 0x42, 0x42, 0x42]
         = (Inl (ReferenceError ''pendingCreateUserPasswords is not defined''), st)
       \<and> promises st = Map.empty \<and> latestPasswords st = Map.empty \<and> written st = [])"
  by (simp add: createUser_def handleNotifications_def idx_def connected_def initialState_def Let_def)

end
